theory Spec2Isabelle
  imports Complex_Main "HOL-Library.Signed_Division"
begin

section \<open>The time-tracking widget (components/employee/time-tracking-widget.tsx)\<close>

text \<open>
  The component is a React function component: a handful of state cells, two interval
  timers, four asynchronous click handlers and two asynchronous fetch functions. The
  embedding keeps the state cells in a record, turns every setter call into a record
  update, and turns everything the outside world decides (the result of
  \<open>getCurrentUser\<close>, of \<open>fetch\<close>, of \<open>response.json\<close>, the value of \<open>Date.now\<close>) into an
  argument. What the component does to the outside world (toasts, the
  \<open>timeTrackingChanged\<close> event, POST requests, scheduled refreshes) is logged in the
  same record.
\<close>

subsection \<open>JavaScript numbers that hold millisecond counts\<close>

text \<open>
  \<open>Date.now()\<close> and \<open>Date.prototype.getTime()\<close> return an integral number of milliseconds,
  or \<open>NaN\<close> for an invalid date. All arithmetic of the timer code stays on such values
  (differences, remainders and floors of quotients by positive constants), far below
  \<open>2^53\<close>, so a number is modelled as either \<open>NaN\<close> or an integer.
\<close>

datatype jsnum = NaN | Fin int

fun js_sub :: "jsnum \<Rightarrow> jsnum \<Rightarrow> jsnum" where
  "js_sub (Fin a) (Fin b) = Fin (a - b)"
| "js_sub _ _ = NaN"

text \<open>\<open>x % d\<close>: the remainder takes the sign of the dividend.\<close>

fun js_rem :: "jsnum \<Rightarrow> int \<Rightarrow> jsnum" where
  "js_rem (Fin a) d = Fin (a smod d)"
| "js_rem NaN d = NaN"

text \<open>\<open>Math.floor(x / d)\<close> for a positive constant \<open>d\<close>.\<close>

fun js_floor_div :: "jsnum \<Rightarrow> int \<Rightarrow> jsnum" where
  "js_floor_div (Fin a) d = Fin (a div d)"
| "js_floor_div NaN d = NaN"

text \<open>Decimal notation of a natural number.\<close>

definition digits :: string where
  "digits = ''0123456789''"

fun show_nat :: "nat \<Rightarrow> string" where
  "show_nat n =
     (if n < 10 then [digits ! n]
      else show_nat (n div 10) @ [digits ! (n mod 10)])"

declare show_nat.simps [simp del]

text \<open>\<open>Number.prototype.toString()\<close> on an integral value or \<open>NaN\<close>.\<close>

fun js_toString :: "jsnum \<Rightarrow> string" where
  "js_toString NaN = ''NaN''"
| "js_toString (Fin i) = (if i < 0 then CHR ''-'' # show_nat (nat (- i)) else show_nat (nat i))"

text \<open>\<open>s.padStart(2, '0')\<close>.\<close>

definition padStart2 :: "string \<Rightarrow> string" where
  "padStart2 s = replicate (2 - length s) (CHR ''0'') @ s"

subsection \<open>Data model\<close>

datatype status = Active | Completed | Break

text \<open>
  \<open>CurrentTimeEntry\<close> and \<open>RecentActivity\<close>. Timestamps stay the strings the server sent;
  \<open>total_hours\<close> and \<open>break_duration\<close> are numbers the widget stores and never computes
  with.
\<close>

record entry =
  entry_id :: string
  clock_in :: string
  clock_out :: "string option"
  break_start :: "string option"
  break_end :: "string option"
  status :: status
  location :: "string option"
  total_hours :: "real option"
  break_duration :: real

record activity =
  act_id :: string
  act_clock_in :: string
  act_clock_out :: "string option"
  act_total_hours :: "real option"
  act_status :: status
  act_date :: string

text \<open>The four mutating requests, named after the \<open>action\<close> field of the POST body.\<close>

datatype action = ClockIn | ClockOut | StartBreak | EndBreak

datatype toast = ToastSuccess string | ToastError string

text \<open>
  The state cells of \<open>TimeTrackingWidget\<close> (\<open>useState\<close>), followed by the log of its
  effects on the outside: \<open>toasts\<close> (the titles passed to \<open>toast.success\<close> and
  \<open>toast.error\<close>, oldest first), \<open>broadcasts\<close> (how many \<open>timeTrackingChanged\<close> events
  were dispatched), \<open>refreshes\<close> (how many delayed \<open>fetchRecentActivities\<close> calls were
  scheduled) and \<open>posted\<close> (the mutating POST requests issued, oldest first).
\<close>

record widget =
  currentEntry :: "entry option"
  recentActivities :: "activity list"
  isLoading :: bool
  elapsedTime :: jsnum
  breakTime :: jsnum
  isRealTime :: bool
  toasts :: "toast list"
  broadcasts :: nat
  refreshes :: nat
  posted :: "action list"

text \<open>The state at mount: the initial values given to \<open>useState\<close>, nothing done yet.\<close>

definition initial :: widget where
  "initial = \<lparr> currentEntry = None, recentActivities = [], isLoading = True,
     elapsedTime = Fin 0, breakTime = Fin 0, isRealTime = False,
     toasts = [], broadcasts = 0, refreshes = 0, posted = [] \<rparr>"

subsection \<open>What the network gives back\<close>

text \<open>
  A parsed response body \<open>{success, data, error}\<close>: \<open>success\<close> is the truthiness of the
  field, \<open>data\<close> is \<open>None\<close> when the field is missing or \<open>null\<close>, \<open>error\<close> likewise.
\<close>

record 'd body =
  success :: bool
  data :: "'d option"
  error :: "string option"

text \<open>
  The outcome of \<open>await fetch(...)\<close> followed by \<open>await response.json()\<close>:
  \<open>Thrown\<close> when \<open>fetch\<close> rejects; otherwise the HTTP status and the parsed body, which is
  \<open>None\<close> when \<open>response.json()\<close> rejects or the body is not an object whose fields can
  be read (\<open>null\<close>), so that the first field access throws.
\<close>

datatype 'd reply = Thrown | Answer nat "'d body option"

text \<open>\<open>response.ok\<close>.\<close>

definition ok :: "nat \<Rightarrow> bool" where
  "ok st = (200 \<le> st \<and> st \<le> 299)"

text \<open>The outcome of \<open>await getCurrentUser()\<close>: it rejects, or yields a user or none.\<close>

datatype user = UserThrown | NoUser | SomeUser

text \<open>\<open>a || b\<close> on an optional string and a default.\<close>

definition or_else :: "string option \<Rightarrow> string \<Rightarrow> string" where
  "or_else a b = (case a of Some s \<Rightarrow> (if s = [] then b else s) | None \<Rightarrow> b)"

subsection \<open>The session timer (the effect on \<open>currentEntry\<close>, lines 70-98)\<close>

text \<open>
  \<open>updateTimer\<close> is the callback of the effect. \<open>parse s\<close> stands for
  \<open>new Date(s).getTime()\<close> (\<open>NaN\<close> when the string does not parse) and \<open>now\<close> for
  \<open>Date.now()\<close>.
\<close>

definition updateTimer :: "(string \<Rightarrow> jsnum) \<Rightarrow> int \<Rightarrow> widget \<Rightarrow> widget" where
  "updateTimer parse now w =
     (case currentEntry w of
        None \<Rightarrow> w
      | Some e \<Rightarrow>
          if status e = Active then
            w\<lparr>elapsedTime := js_sub (Fin now) (parse (clock_in e))\<rparr>
          else
            (case break_start e of
               None \<Rightarrow> w
             | Some b \<Rightarrow>
                 if status e = Break \<and> b \<noteq> [] then
                   w\<lparr>breakTime := js_sub (Fin now) (parse b)\<rparr>
                 else w))"

text \<open>
  The condition under which the effect calls \<open>updateTimer\<close> at once and registers it with
  \<open>setInterval(updateTimer, 1000)\<close>; otherwise the interval is cleared.
\<close>

definition timerArmed :: "widget \<Rightarrow> bool" where
  "timerArmed w =
     (case currentEntry w of
        None \<Rightarrow> False
      | Some e \<Rightarrow> status e = Active \<or> status e = Break)"

text \<open>One firing of the interval, if there is one.\<close>

definition tick :: "(string \<Rightarrow> jsnum) \<Rightarrow> int \<Rightarrow> widget \<Rightarrow> widget" where
  "tick parse now w = (if timerArmed w then updateTimer parse now w else w)"

subsection \<open>Formatting (lines 198-229)\<close>

definition formatTime :: "jsnum \<Rightarrow> string" where
  "formatTime milliseconds =
     (let hours = js_floor_div milliseconds (1000 * 60 * 60);
          minutes = js_floor_div (js_rem milliseconds (1000 * 60 * 60)) (1000 * 60);
          seconds = js_floor_div (js_rem milliseconds (1000 * 60)) 1000
      in padStart2 (js_toString hours) @ '':'' @ padStart2 (js_toString minutes) @ '':''
           @ padStart2 (js_toString seconds))"

text \<open>
  \<open>formatActivityTime\<close> calls two functions of the date-fns library. \<open>parseISO s\<close> returns
  a date, an invalid one when \<open>s\<close> does not parse: \<open>parseISO s\<close> here is \<open>None\<close> then, and
  the time value otherwise. \<open>format\<close> throws a \<open>RangeError\<close> on an invalid date and
  formats a valid one: \<open>fmt t p\<close> is the text for time value \<open>t\<close> under pattern \<open>p\<close>.
\<close>

datatype exn = RangeError | TypeError | SyntaxError | FetchFailed

definition format :: "(int \<Rightarrow> string \<Rightarrow> string) \<Rightarrow> int option \<Rightarrow> string \<Rightarrow> exn + string" where
  "format fmt date pattern =
     (case date of None \<Rightarrow> Inl RangeError | Some t \<Rightarrow> Inr (fmt t pattern))"

definition formatActivityTime ::
  "(string \<Rightarrow> int option) \<Rightarrow> (int \<Rightarrow> string \<Rightarrow> string) \<Rightarrow> string \<Rightarrow> string" where
  "formatActivityTime parseISO fmt timeString =
     (case format fmt (parseISO timeString) ''HH:mm:ss'' of
        Inr text \<Rightarrow> text
      | Inl _ \<Rightarrow> timeString)"

subsection \<open>Fetching the current entry and the history (lines 101-177)\<close>

text \<open>
  The body of a \<open>try\<close> block is a function into \<open>exn + widget\<close>: \<open>Inl\<close> when it throws
  (always before its first setter call), \<open>Inr\<close> the state it leaves otherwise. The
  function around it is the \<open>catch\<close> and the \<open>finally\<close>.
\<close>

definition fetchCurrentEntry_try :: "user \<Rightarrow> entry reply \<Rightarrow> widget \<Rightarrow> exn + widget" where
  "fetchCurrentEntry_try u r w =
     (case u of
        UserThrown \<Rightarrow> Inl FetchFailed
      | NoUser \<Rightarrow> Inr w
      | SomeUser \<Rightarrow>
          (case r of
             Thrown \<Rightarrow> Inl FetchFailed
           | Answer st b \<Rightarrow>
               if ok st then
                 (case b of
                    None \<Rightarrow> Inl SyntaxError
                  | Some result \<Rightarrow> Inr (w\<lparr>currentEntry := data result, isRealTime := True\<rparr>))
               else Inr (w\<lparr>currentEntry := None\<rparr>)))"

definition fetchCurrentEntry :: "user \<Rightarrow> entry reply \<Rightarrow> widget \<Rightarrow> widget" where
  "fetchCurrentEntry u r w =
     (case fetchCurrentEntry_try u r w of
        Inr w' \<Rightarrow> w'
      | Inl _ \<Rightarrow> w\<lparr>currentEntry := None\<rparr>)"

definition fetchRecentActivities_try ::
  "user \<Rightarrow> (activity list) reply \<Rightarrow> widget \<Rightarrow> exn + widget" where
  "fetchRecentActivities_try u r w =
     (case u of
        UserThrown \<Rightarrow> Inl FetchFailed
      | NoUser \<Rightarrow> Inr w
      | SomeUser \<Rightarrow>
          (case r of
             Thrown \<Rightarrow> Inl FetchFailed
           | Answer st b \<Rightarrow>
               if ok st then
                 (case b of
                    None \<Rightarrow> Inl SyntaxError
                  | Some result \<Rightarrow>
                      if success result then
                        (case data result of
                           None \<Rightarrow> Inr w
                         | Some entries \<Rightarrow> Inr (w\<lparr>recentActivities := take 3 entries\<rparr>))
                      else Inr w)
               else Inr w))"

definition fetchRecentActivities :: "user \<Rightarrow> (activity list) reply \<Rightarrow> widget \<Rightarrow> widget" where
  "fetchRecentActivities u r w =
     (case fetchRecentActivities_try u r w of
        Inr w' \<Rightarrow> w'
      | Inl _ \<Rightarrow> w)"

subsection \<open>The four handlers (lines 251-413)\<close>

text \<open>
  A handler is asynchronous: it runs up to its first \<open>await\<close>, and goes on when the
  awaited result arrives, on whatever the state is by then. Each setter assigns a value
  that does not depend on the state the handler started in, so the handler is the
  composition of its pieces: \<open>_start\<close> (the guard and what follows it synchronously),
  \<open>_user\<close> (clock-in only: after \<open>getCurrentUser\<close>) and \<open>_reply\<close> (after \<open>fetch\<close> and
  \<open>response.json\<close>). \<open>_start\<close> and \<open>_user\<close> also say whether the handler goes on.

  The \<open>isLoading\<close> that the guard tests is a constant of the render that created the
  handler, while \<open>setIsLoading\<close> writes the state cell, which the next render reads: the
  guard's value is the argument \<open>seen\<close> of \<open>_start\<close>. The handler as a whole
  (\<open>handleClockIn\<close> and its siblings) is a call through the handlers of a render of the
  state it is applied to, with nothing else happening before the reply.
\<close>

definition say :: "toast \<Rightarrow> widget \<Rightarrow> widget" where
  "say t w = w\<lparr>toasts := toasts w @ [t]\<rparr>"

text \<open>
  The two lines every success branch ends with: the \<open>timeTrackingChanged\<close> event and the
  delayed \<open>fetchRecentActivities\<close>.
\<close>

definition announce :: "widget \<Rightarrow> widget" where
  "announce w = w\<lparr>broadcasts := Suc (broadcasts w), refreshes := Suc (refreshes w)\<rparr>"

definition handleClockIn_start :: "bool \<Rightarrow> widget \<Rightarrow> widget \<times> bool" where
  "handleClockIn_start seen w =
     (if seen then (w, False) else (w\<lparr>isLoading := True\<rparr>, True))"

definition handleClockIn_user :: "user \<Rightarrow> widget \<Rightarrow> widget \<times> bool" where
  "handleClockIn_user u w =
     (case u of
        UserThrown \<Rightarrow> ((say (ToastError ''Failed to clock in'') w)\<lparr>isLoading := False\<rparr>, False)
      | NoUser \<Rightarrow> ((say (ToastError ''Please log in to clock in'') w)\<lparr>isLoading := False\<rparr>, False)
      | SomeUser \<Rightarrow> (w\<lparr>posted := posted w @ [ClockIn]\<rparr>, True))"

definition handleClockIn_try :: "entry reply \<Rightarrow> widget \<Rightarrow> exn + widget" where
  "handleClockIn_try r w =
     (case r of
        Thrown \<Rightarrow> Inl FetchFailed
      | Answer st None \<Rightarrow> Inl SyntaxError
      | Answer st (Some result) \<Rightarrow>
          if success result then
            Inr (announce ((say (ToastSuccess ''Clocked in successfully!'') w)
                   \<lparr>currentEntry := data result\<rparr>))
          else Inr (say (ToastError (or_else (error result) ''Failed to clock in'')) w))"

definition handleClockIn_reply :: "entry reply \<Rightarrow> widget \<Rightarrow> widget" where
  "handleClockIn_reply r w =
     (case handleClockIn_try r w of
        Inr w' \<Rightarrow> w'
      | Inl _ \<Rightarrow> say (ToastError ''Failed to clock in'') w)\<lparr>isLoading := False\<rparr>"

definition handleClockIn :: "user \<Rightarrow> entry reply \<Rightarrow> widget \<Rightarrow> widget" where
  "handleClockIn u r w =
     (case handleClockIn_start (isLoading w) w of
        (w1, False) \<Rightarrow> w1
      | (w1, True) \<Rightarrow>
          (case handleClockIn_user u w1 of
             (w2, False) \<Rightarrow> w2
           | (w2, True) \<Rightarrow> handleClockIn_reply r w2))"

text \<open>
  Clock-out, start-break and end-break ask for no user and call \<open>fetch\<close> right after the
  guard. The success toast of clock-out reads \<open>result.data.total_hours\<close> while its
  argument is built: without \<open>data\<close> that throws a \<open>TypeError\<close> into the \<open>catch\<close>.
\<close>

definition handleClockOut_start :: "bool \<Rightarrow> widget \<Rightarrow> widget \<times> bool" where
  "handleClockOut_start seen w =
     (if seen then (w, False)
      else (w\<lparr>isLoading := True, posted := posted w @ [ClockOut]\<rparr>, True))"

definition handleClockOut_try :: "entry reply \<Rightarrow> widget \<Rightarrow> exn + widget" where
  "handleClockOut_try r w =
     (case r of
        Thrown \<Rightarrow> Inl FetchFailed
      | Answer st None \<Rightarrow> Inl SyntaxError
      | Answer st (Some result) \<Rightarrow>
          if success result then
            (case data result of
               None \<Rightarrow> Inl TypeError
             | Some d \<Rightarrow>
                 Inr (announce ((say (ToastSuccess ''Clocked out successfully!'') w)
                        \<lparr>currentEntry := None, elapsedTime := Fin 0, breakTime := Fin 0\<rparr>)))
          else Inr (say (ToastError (or_else (error result) ''Failed to clock out'')) w))"

definition handleClockOut_reply :: "entry reply \<Rightarrow> widget \<Rightarrow> widget" where
  "handleClockOut_reply r w =
     (case handleClockOut_try r w of
        Inr w' \<Rightarrow> w'
      | Inl _ \<Rightarrow> say (ToastError ''Failed to clock out'') w)\<lparr>isLoading := False\<rparr>"

definition handleClockOut :: "entry reply \<Rightarrow> widget \<Rightarrow> widget" where
  "handleClockOut r w =
     (case handleClockOut_start (isLoading w) w of
        (w1, False) \<Rightarrow> w1
      | (w1, True) \<Rightarrow> handleClockOut_reply r w1)"

definition handleStartBreak_start :: "bool \<Rightarrow> widget \<Rightarrow> widget \<times> bool" where
  "handleStartBreak_start seen w =
     (if seen then (w, False)
      else (w\<lparr>isLoading := True, posted := posted w @ [StartBreak]\<rparr>, True))"

definition handleStartBreak_try :: "entry reply \<Rightarrow> widget \<Rightarrow> exn + widget" where
  "handleStartBreak_try r w =
     (case r of
        Thrown \<Rightarrow> Inl FetchFailed
      | Answer st None \<Rightarrow> Inl SyntaxError
      | Answer st (Some result) \<Rightarrow>
          if success result then
            Inr (announce ((say (ToastSuccess ''Break started'') w)
                   \<lparr>currentEntry := data result, breakTime := Fin 0\<rparr>))
          else Inr (say (ToastError (or_else (error result) ''Failed to start break'')) w))"

definition handleStartBreak_reply :: "entry reply \<Rightarrow> widget \<Rightarrow> widget" where
  "handleStartBreak_reply r w =
     (case handleStartBreak_try r w of
        Inr w' \<Rightarrow> w'
      | Inl _ \<Rightarrow> say (ToastError ''Failed to start break'') w)\<lparr>isLoading := False\<rparr>"

definition handleStartBreak :: "entry reply \<Rightarrow> widget \<Rightarrow> widget" where
  "handleStartBreak r w =
     (case handleStartBreak_start (isLoading w) w of
        (w1, False) \<Rightarrow> w1
      | (w1, True) \<Rightarrow> handleStartBreak_reply r w1)"

definition handleEndBreak_start :: "bool \<Rightarrow> widget \<Rightarrow> widget \<times> bool" where
  "handleEndBreak_start seen w =
     (if seen then (w, False)
      else (w\<lparr>isLoading := True, posted := posted w @ [EndBreak]\<rparr>, True))"

definition handleEndBreak_try :: "entry reply \<Rightarrow> widget \<Rightarrow> exn + widget" where
  "handleEndBreak_try r w =
     (case r of
        Thrown \<Rightarrow> Inl FetchFailed
      | Answer st None \<Rightarrow> Inl SyntaxError
      | Answer st (Some result) \<Rightarrow>
          if success result then
            Inr (announce ((say (ToastSuccess ''Break ended'') w)
                   \<lparr>currentEntry := data result, breakTime := Fin 0\<rparr>))
          else Inr (say (ToastError (or_else (error result) ''Failed to end break'')) w))"

definition handleEndBreak_reply :: "entry reply \<Rightarrow> widget \<Rightarrow> widget" where
  "handleEndBreak_reply r w =
     (case handleEndBreak_try r w of
        Inr w' \<Rightarrow> w'
      | Inl _ \<Rightarrow> say (ToastError ''Failed to end break'') w)\<lparr>isLoading := False\<rparr>"

definition handleEndBreak :: "entry reply \<Rightarrow> widget \<Rightarrow> widget" where
  "handleEndBreak r w =
     (case handleEndBreak_start (isLoading w) w of
        (w1, False) \<Rightarrow> w1
      | (w1, True) \<Rightarrow> handleEndBreak_reply r w1)"

subsection \<open>What is rendered (lines 430-619)\<close>

text \<open>
  While \<open>isLoading\<close> holds, the component renders a skeleton and nothing else. Otherwise
  it renders, among purely cosmetic parts, the four parts below: the status line under
  the title, the buttons (each listed by the handler its \<open>onClick\<close> calls), the timer
  text, and one row for each of the first three recent activities. The date of a row is
  formatted outside any \<open>try\<close>, so a row whose date does not parse makes rendering throw.
\<close>

definition statusLine ::
  "(string \<Rightarrow> int option) \<Rightarrow> (int \<Rightarrow> string \<Rightarrow> string) \<Rightarrow> widget \<Rightarrow> string" where
  "statusLine parseISO fmt w =
     (case currentEntry w of
        Some e \<Rightarrow> ''Since '' @ formatActivityTime parseISO fmt (clock_in e)
      | None \<Rightarrow> ''Ready to clock in'')"

definition actionButtons :: "widget \<Rightarrow> action list" where
  "actionButtons w =
     (case currentEntry w of
        Some e \<Rightarrow> (if status e = Active then [ClockOut] else [])
      | None \<Rightarrow> [ClockIn])"

definition timerText :: "widget \<Rightarrow> string option" where
  "timerText w =
     (case currentEntry w of
        None \<Rightarrow> None
      | Some e \<Rightarrow>
          Some (if status e = Break then formatTime (breakTime w)
                else formatTime (elapsedTime w)))"

text \<open>
  \<open>date.getTime()\<close> of a date-fns result. \<open>formatActivityDuration\<close> wraps its arithmetic
  in a \<open>try\<close> whose \<open>catch\<close> returns \<open>Unknown\<close>; nothing in the block throws on strings
  (an invalid date has the time value \<open>NaN\<close>), so the model has no such branch.
\<close>

fun getTime :: "int option \<Rightarrow> jsnum" where
  "getTime None = NaN"
| "getTime (Some t) = Fin t"

definition formatActivityDuration ::
  "(string \<Rightarrow> int option) \<Rightarrow> string \<Rightarrow> string option \<Rightarrow> string" where
  "formatActivityDuration parseISO clockIn clockOut =
     (case clockOut of
        None \<Rightarrow> ''In Progress''
      | Some out \<Rightarrow>
          if out = [] then ''In Progress''
          else formatTime (js_sub (getTime (parseISO out)) (getTime (parseISO clockIn))))"

record row =
  row_date :: string
  row_label :: string
  row_in :: string
  row_out :: "string option"
  row_total :: string

definition historyRow ::
  "(string \<Rightarrow> int option) \<Rightarrow> (int \<Rightarrow> string \<Rightarrow> string) \<Rightarrow> activity \<Rightarrow> exn + row" where
  "historyRow parseISO fmt a =
     (case format fmt (parseISO (act_date a)) ''MMM dd, yyyy'' of
        Inl e \<Rightarrow> Inl e
      | Inr d \<Rightarrow>
          Inr \<lparr> row_date = d,
                row_label = (if act_status a = Completed then ''Work Session''
                             else if act_status a = Active then ''Active Session''
                             else ''Break Session''),
                row_in = formatActivityTime parseISO fmt (act_clock_in a),
                row_out = (case act_clock_out a of
                             None \<Rightarrow> None
                           | Some out \<Rightarrow>
                               if out = [] then None
                               else Some (formatActivityTime parseISO fmt out)),
                row_total = formatActivityDuration parseISO (act_clock_in a) (act_clock_out a) \<rparr>)"

text \<open>The activities the row template is mapped over: \<open>recentActivities.slice(0, 3)\<close>.\<close>

definition shownActivities :: "widget \<Rightarrow> activity list" where
  "shownActivities w = take 3 (recentActivities w)"

text \<open>Mapping a template that may throw: the first throw ends the rendering.\<close>

fun mapRows :: "('a \<Rightarrow> exn + 'b) \<Rightarrow> 'a list \<Rightarrow> exn + 'b list" where
  "mapRows f [] = Inr []"
| "mapRows f (x # xs) =
     (case f x of
        Inl e \<Rightarrow> Inl e
      | Inr y \<Rightarrow> (case mapRows f xs of Inl e \<Rightarrow> Inl e | Inr ys \<Rightarrow> Inr (y # ys)))"

datatype view = Skeleton | Content string "action list" "string option" "row list"

definition render ::
  "(string \<Rightarrow> int option) \<Rightarrow> (int \<Rightarrow> string \<Rightarrow> string) \<Rightarrow> widget \<Rightarrow> exn + view" where
  "render parseISO fmt w =
     (if isLoading w then Inr Skeleton
      else
        (case mapRows (historyRow parseISO fmt) (shownActivities w) of
           Inl e \<Rightarrow> Inl e
         | Inr rows \<Rightarrow>
             Inr (Content (statusLine parseISO fmt w) (actionButtons w) (timerText w) rows)))"

text \<open>The handlers a user can start from what is on screen, and the rows shown.\<close>

fun available :: "view \<Rightarrow> action list" where
  "available Skeleton = []"
| "available (Content line buttons timer rows) = buttons"

fun history :: "view \<Rightarrow> row list" where
  "history Skeleton = []"
| "history (Content line buttons timer rows) = rows"

subsection \<open>The component over time\<close>

text \<open>
  Timer callbacks, clicks and network results run one at a time, each to its next
  \<open>await\<close>. The runtime state is the widget together with what is pending: the handler
  calls that passed their guard and have not finished (\<open>inflight\<close>, each with the result
  it waits for), the two fetches of \<open>initializeWidget\<close>, its 150 ms timeout that ends
  the loading state (\<open>revealed\<close> once it fired), and how many of the scheduled history
  refreshes have completed. \<open>captured\<close> is the \<open>isLoading\<close> of the last render, the one
  whose handlers are attached: a setter only schedules the next render, so a handler
  called before that render happens still tests the old value.
\<close>

datatype stage = AwaitUser | AwaitReply

record runtime =
  ui :: widget
  captured :: bool
  inflight :: "(action \<times> stage) list"
  fetchingCurrent :: bool
  fetchingHistory :: bool
  revealed :: bool
  refreshed :: nat

definition mounted :: runtime where
  "mounted = \<lparr> ui = initial, captured = True, inflight = [], fetchingCurrent = True, fetchingHistory = True,
     revealed = False, refreshed = 0 \<rparr>"

datatype event =
    Call action
  | Render
  | User user
  | Reply action "entry reply"
  | CurrentFetched user "entry reply"
  | HistoryFetched user "(activity list) reply"
  | Refreshed user "(activity list) reply"
  | Reveal
  | Tick int

fun start :: "action \<Rightarrow> bool \<Rightarrow> widget \<Rightarrow> widget \<times> bool" where
  "start ClockIn = handleClockIn_start"
| "start ClockOut = handleClockOut_start"
| "start StartBreak = handleStartBreak_start"
| "start EndBreak = handleEndBreak_start"

fun first_await :: "action \<Rightarrow> stage" where
  "first_await ClockIn = AwaitUser"
| "first_await _ = AwaitReply"

fun finish :: "action \<Rightarrow> entry reply \<Rightarrow> widget \<Rightarrow> widget" where
  "finish ClockIn = handleClockIn_reply"
| "finish ClockOut = handleClockOut_reply"
| "finish StartBreak = handleStartBreak_reply"
| "finish EndBreak = handleEndBreak_reply"

text \<open>
  One event; \<open>None\<close> when it cannot happen in this state (no such call is waiting, the
  fetch is over, the timeout is not due, no interval is registered). A handler may be
  called at any time, whatever is on screen; it is the handler of the last render, so
  its guard tests \<open>captured\<close>. \<open>Render\<close> is the component function running again on the
  state as it is.
\<close>

fun fire :: "(string \<Rightarrow> jsnum) \<Rightarrow> event \<Rightarrow> runtime \<Rightarrow> runtime option" where
  "fire parse (Call a) s =
     (case start a (captured s) (ui s) of
        (w, goes) \<Rightarrow>
          Some (s\<lparr>ui := w,
                  inflight := (if goes then inflight s @ [(a, first_await a)] else inflight s)\<rparr>))"
| "fire parse Render s = Some (s\<lparr>captured := isLoading (ui s)\<rparr>)"
| "fire parse (User u) s =
     (if (ClockIn, AwaitUser) \<in> set (inflight s) then
        (case handleClockIn_user u (ui s) of
           (w, goes) \<Rightarrow>
             Some (s\<lparr>ui := w,
                     inflight := (if goes then [(ClockIn, AwaitReply)] else [])
                                 @ remove1 (ClockIn, AwaitUser) (inflight s)\<rparr>))
      else None)"
| "fire parse (Reply a r) s =
     (if (a, AwaitReply) \<in> set (inflight s) then
        Some (s\<lparr>ui := finish a r (ui s), inflight := remove1 (a, AwaitReply) (inflight s)\<rparr>)
      else None)"
| "fire parse (CurrentFetched u r) s =
     (if fetchingCurrent s then
        Some (s\<lparr>ui := fetchCurrentEntry u r (ui s), fetchingCurrent := False\<rparr>)
      else None)"
| "fire parse (HistoryFetched u r) s =
     (if fetchingHistory s then
        Some (s\<lparr>ui := fetchRecentActivities u r (ui s), fetchingHistory := False\<rparr>)
      else None)"
| "fire parse (Refreshed u r) s =
     (if refreshed s < refreshes (ui s) then
        Some (s\<lparr>ui := fetchRecentActivities u r (ui s), refreshed := Suc (refreshed s)\<rparr>)
      else None)"
| "fire parse Reveal s =
     (if \<not> fetchingCurrent s \<and> \<not> fetchingHistory s \<and> \<not> revealed s then
        Some (s\<lparr>ui := (ui s)\<lparr>isLoading := False\<rparr>, revealed := True\<rparr>)
      else None)"
| "fire parse (Tick now) s =
     (if timerArmed (ui s) then Some (s\<lparr>ui := updateTimer parse now (ui s)\<rparr>) else None)"

fun run :: "(string \<Rightarrow> jsnum) \<Rightarrow> event list \<Rightarrow> runtime \<Rightarrow> runtime option" where
  "run parse [] s = Some s"
| "run parse (ev # evs) s =
     (case fire parse ev s of None \<Rightarrow> None | Some s' \<Rightarrow> run parse evs s')"


text \<open>The interval firing at each of the given times, in order.\<close>

definition ticks :: "(string \<Rightarrow> jsnum) \<Rightarrow> int list \<Rightarrow> widget \<Rightarrow> widget" where
  "ticks parse nows w = foldl (\<lambda>v now. tick parse now v) w nows"

text \<open>
  What holds of every state the component reaches: until the loading state has ended,
  every render has seen the busy flag set, no handler has passed its guard and nothing
  was shown to the user; and the current entry is the initial \<open>null\<close> for as long as its
  fetch is pending.
\<close>

definition settled :: "runtime \<Rightarrow> bool" where
  "settled s =
     ((\<not> revealed s \<longrightarrow>
         captured s \<and> isLoading (ui s) \<and> inflight s = [] \<and> toasts (ui s) = [])
      \<and> (fetchingCurrent s \<longrightarrow> \<not> revealed s \<and> currentEntry (ui s) = None))"

text \<open>
  The busy flag at work: a handler in flight keeps the flag set, and there is never more
  than one in flight.
\<close>

definition serial :: "runtime \<Rightarrow> bool" where
  "serial s = ((inflight s \<noteq> [] \<longrightarrow> isLoading (ui s)) \<and> length (inflight s) \<le> 1)"

text \<open>
  The outcomes of the current-entry fetch that the widget treats as "no open session":
  no user, a 404 or 401 response, or a throw (of \<open>getCurrentUser\<close>, of \<open>fetch\<close>, or of
  \<open>response.json\<close> on an ok response).
\<close>

definition nothingOpen :: "user \<Rightarrow> entry reply \<Rightarrow> bool" where
  "nothingOpen u r =
     (case u of
        NoUser \<Rightarrow> True
      | UserThrown \<Rightarrow> True
      | SomeUser \<Rightarrow>
          (case r of
             Thrown \<Rightarrow> True
           | Answer st b \<Rightarrow> st = 404 \<or> st = 401 \<or> (ok st \<and> b = None)))"

subsection \<open>Concrete inputs\<close>

text \<open>
  A date parser that knows two timestamps (with their true time values) and rejects
  everything else, a formatter for the time of day in UTC, and sample records.
\<close>

definition demoParse :: "string \<Rightarrow> jsnum" where
  "demoParse s =
     (if s = ''2024-01-01T09:00:00.000Z'' then Fin 1704099600000
      else if s = ''2024-01-01T09:00:05.000Z'' then Fin 1704099605000
      else NaN)"

definition demoISO :: "string \<Rightarrow> int option" where
  "demoISO s = (case demoParse s of NaN \<Rightarrow> None | Fin t \<Rightarrow> Some t)"

definition demoFmt :: "int \<Rightarrow> string \<Rightarrow> string" where
  "demoFmt t pattern =
     (if pattern = ''HH:mm:ss'' then formatTime (Fin (t mod 86400000)) else ''Jan 01, 2024'')"

definition demoEntry :: "status \<Rightarrow> string \<Rightarrow> string option \<Rightarrow> entry" where
  "demoEntry s cin bs =
     \<lparr> entry_id = ''e1'', clock_in = cin, clock_out = None, break_start = bs,
       break_end = None, status = s, location = None, total_hours = None,
       break_duration = 0 \<rparr>"

definition demoActivity :: "string \<Rightarrow> activity" where
  "demoActivity i =
     \<lparr> act_id = i, act_clock_in = ''2024-01-01T09:00:00.000Z'',
       act_clock_out = Some ''2024-01-01T09:00:05.000Z'', act_total_hours = None,
       act_status = Completed, act_date = ''2024-01-01T09:00:00.000Z'' \<rparr>"

definition demoBody :: "bool \<Rightarrow> 'd option \<Rightarrow> 'd body" where
  "demoBody s d = \<lparr> success = s, data = d, error = None \<rparr>"

definition demoRow :: row where
  "demoRow =
     \<lparr> row_date = ''Jan 01, 2024'', row_label = ''Work Session'', row_in = ''09:00:00'',
       row_out = Some ''09:00:05'', row_total = ''00:00:05'' \<rparr>"

text \<open>A widget showing its content, with the given session and history.\<close>

definition demoWidget :: "entry option \<Rightarrow> activity list \<Rightarrow> widget" where
  "demoWidget e acts = initial\<lparr>currentEntry := e, recentActivities := acts, isLoading := False\<rparr>"




subsection \<open>The format the specification names\<close>

text \<open>
  The specification describes the timer text as \<open>HH:MM:SS\<close>. \<open>spec_HHMMSS\<close> follows
  those words, not the code: three fields of decimal digits separated by colons, two
  digits each for minutes and seconds and at least two for hours.
\<close>

fun fields :: "string \<Rightarrow> string list" where
  "fields [] = [[]]"
| "fields (c # cs) =
     (if c = CHR '':'' then [] # fields cs
      else (case fields cs of [] \<Rightarrow> [[c]] | f # fs \<Rightarrow> (c # f) # fs))"

definition spec_HHMMSS :: "string \<Rightarrow> bool" where
  "spec_HHMMSS s =
     (case fields s of
        [h, m, sec] \<Rightarrow>
          2 \<le> length h \<and> length m = 2 \<and> length sec = 2
          \<and> list_all (\<lambda>c. c \<in> set digits) (h @ m @ sec)
      | _ \<Rightarrow> False)"

section \<open>Properties\<close>

subsection \<open>Formatting at the two values the claims name\<close>

lemma formatTime_zero: "formatTime (Fin 0) = ''00:00:00''"
  by (simp add: formatTime_def padStart2_def show_nat.simps digits_def)

lemma formatTime_NaN: "formatTime NaN = ''NaN:NaN:NaN''"
  by (simp add: formatTime_def padStart2_def)

subsection \<open>The timer text of a non-negative number has the form the specification names\<close>

lemma digit_char: "k < 10 \<Longrightarrow> digits ! k \<in> set digits"
  by (rule nth_mem) (simp add: digits_def)

lemma show_nat_digits: "list_all (\<lambda>c. c \<in> set digits) (show_nat n)"
proof (induction n rule: show_nat.induct)
  case (1 n)
  show ?case
  proof (cases "n < 10")
    case True
    with digit_char [OF True] show ?thesis by (simp add: show_nat.simps [of n])
  next
    case False
    have "n mod 10 < 10" by simp
    from digit_char [OF this] "1.IH" False show ?thesis by (simp add: show_nat.simps [of n])
  qed
qed

lemma show_nat_length: "n < 100 \<Longrightarrow> 1 \<le> length (show_nat n) \<and> length (show_nat n) \<le> 2"
proof (cases "n < 10")
  case True
  then show ?thesis by (simp add: show_nat.simps [of n])
next
  case False
  assume "n < 100"
  then have "n div 10 < 10" by simp
  then have "length (show_nat (n div 10)) = 1" by (simp add: show_nat.simps [of "n div 10"])
  with False show ?thesis by (simp add: show_nat.simps [of n])
qed

lemma zero_digit: "CHR ''0'' \<in> set digits"
  by (simp add: digits_def)

lemma colon_no_digit: "CHR '':'' \<notin> set digits"
  by (simp add: digits_def)

lemma padStart2_digits:
  "list_all (\<lambda>c. c \<in> set digits) s \<Longrightarrow> list_all (\<lambda>c. c \<in> set digits) (padStart2 s)"
  using zero_digit by (auto simp: padStart2_def list_all_iff)

lemma padStart2_length: "length (padStart2 s) = max 2 (length s)"
  by (simp add: padStart2_def)

lemma fields_plain: "CHR '':'' \<notin> set a \<Longrightarrow> fields a = [a]"
  by (induction a) auto

lemma fields_colon: "CHR '':'' \<notin> set a \<Longrightarrow> fields (a @ CHR '':'' # rest) = a # fields rest"
  by (induction a) auto

lemma digits_no_colon: "list_all (\<lambda>c. c \<in> set digits) s \<Longrightarrow> CHR '':'' \<notin> set s"
  using colon_no_digit by (auto simp: list_all_iff)

lemma spec_HHMMSS_I:
  assumes "list_all (\<lambda>c. c \<in> set digits) h" "list_all (\<lambda>c. c \<in> set digits) m"
    "list_all (\<lambda>c. c \<in> set digits) s" "2 \<le> length h" "length m = 2" "length s = 2"
  shows "spec_HHMMSS (h @ '':'' @ m @ '':'' @ s)"
proof -
  from assms(1-3) have "fields (h @ '':'' @ m @ '':'' @ s) = [h, m, s]"
    by (simp add: fields_colon fields_plain digits_no_colon)
  with assms show ?thesis by (simp add: spec_HHMMSS_def)
qed

lemma js_toString_nonneg: "0 \<le> i \<Longrightarrow> js_toString (Fin i) = show_nat (nat i)"
  by simp

lemma formatTime_Fin:
  "formatTime (Fin ms) =
     padStart2 (js_toString (Fin (ms div 3600000))) @ '':''
     @ padStart2 (js_toString (Fin (ms smod 3600000 div 60000))) @ '':''
     @ padStart2 (js_toString (Fin (ms smod 60000 div 1000)))"
  by (simp add: formatTime_def)

lemma minutes_bound: "(x::int) < 3600000 \<Longrightarrow> x div 60000 < 60"
  by simp

lemma seconds_bound: "(x::int) < 60000 \<Longrightarrow> x div 1000 < 60"
  by simp

lemma formatTime_wellformed:
  assumes "0 \<le> ms"
  shows "spec_HHMMSS (formatTime (Fin ms))"
proof -
  let ?h = "ms div 3600000" and ?m = "ms mod 3600000 div 60000" and ?s = "ms mod 60000 div 1000"
  from assms have sm: "ms smod 3600000 = ms mod 3600000" "ms smod 60000 = ms mod 60000"
    by (simp_all only: smod_mod_positive [of ms] zero_le_numeral)
  from assms have h: "0 \<le> ?h" by (simp only: pos_imp_zdiv_nonneg_iff [of 3600000 ms] zero_less_numeral)
  have m0: "0 \<le> ms mod 3600000" and m1: "ms mod 3600000 < 3600000" by simp_all
  from m0 have m2: "0 \<le> ?m" by (simp only: pos_imp_zdiv_nonneg_iff [of 60000] zero_less_numeral)
  from m1 have "?m < 60" by (rule minutes_bound)
  then have m: "0 \<le> ?m" "nat ?m < 100" using m2 by simp_all
  have s0: "0 \<le> ms mod 60000" and s1: "ms mod 60000 < 60000" by simp_all
  from s0 have s2: "0 \<le> ?s" by (simp only: pos_imp_zdiv_nonneg_iff [of 1000] zero_less_numeral)
  from s1 have "?s < 60" by (rule seconds_bound)
  then have s: "0 \<le> ?s" "nat ?s < 100" using s2 by simp_all
  have f: "formatTime (Fin ms) =
      padStart2 (show_nat (nat ?h)) @ '':'' @ padStart2 (show_nat (nat ?m)) @ '':''
      @ padStart2 (show_nat (nat ?s))"
    by (simp only: formatTime_Fin sm js_toString_nonneg [OF h] js_toString_nonneg [OF m(1)]
        js_toString_nonneg [OF s(1)])
  have lh: "2 \<le> length (padStart2 (show_nat (nat ?h)))" by (simp add: padStart2_length)
  from show_nat_length [OF m(2)] have lm: "length (padStart2 (show_nat (nat ?m))) = 2"
    by (simp add: padStart2_length)
  from show_nat_length [OF s(2)] have ls: "length (padStart2 (show_nat (nat ?s))) = 2"
    by (simp add: padStart2_length)
  show ?thesis
    unfolding f
    by (rule spec_HHMMSS_I) (simp_all only: padStart2_digits show_nat_digits lh lm ls)
qed

subsection \<open>What each piece leaves alone\<close>

lemma start_busy: "start a True w = (w, False)"
  by (cases a) (simp_all add: handleClockIn_start_def handleClockOut_start_def
      handleStartBreak_start_def handleEndBreak_start_def)

lemma start_idle:
  "\<exists>w'. start a False w = (w', True) \<and> isLoading w' \<and> toasts w' = toasts w
     \<and> currentEntry w' = currentEntry w"
  by (cases a) (simp_all add: handleClockIn_start_def handleClockOut_start_def
      handleStartBreak_start_def handleEndBreak_start_def)

lemma finish_idle: "\<not> isLoading (finish a r w)"
  by (cases a) (simp_all add: handleClockIn_reply_def handleClockOut_reply_def
      handleStartBreak_reply_def handleEndBreak_reply_def)

lemma user_stage:
  "handleClockIn_user u w = (w', goes) \<Longrightarrow>
   (goes \<longrightarrow> isLoading w' = isLoading w) \<and> (\<not> goes \<longrightarrow> \<not> isLoading w')"
  by (auto simp: handleClockIn_user_def say_def split: user.splits)

lemma fetchCurrentEntry_frame:
  "isLoading (fetchCurrentEntry u r w) = isLoading w
   \<and> toasts (fetchCurrentEntry u r w) = toasts w"
  by (simp add: fetchCurrentEntry_def fetchCurrentEntry_try_def
      split: user.splits reply.splits option.splits)

lemma fetchRecentActivities_frame:
  "isLoading (fetchRecentActivities u r w) = isLoading w
   \<and> toasts (fetchRecentActivities u r w) = toasts w
   \<and> currentEntry (fetchRecentActivities u r w) = currentEntry w"
  by (simp add: fetchRecentActivities_def fetchRecentActivities_try_def
      split: user.splits reply.splits option.splits)

lemma updateTimer_frame:
  "isLoading (updateTimer parse now w) = isLoading w
   \<and> toasts (updateTimer parse now w) = toasts w
   \<and> currentEntry (updateTimer parse now w) = currentEntry w"
  by (simp add: updateTimer_def split: option.splits)

lemma tick_on_break:
  "currentEntry w = Some e \<Longrightarrow> status e = Break \<Longrightarrow>
   currentEntry (tick parse now w) = Some e \<and> elapsedTime (tick parse now w) = elapsedTime w"
  by (simp add: tick_def updateTimer_def split: option.splits)

lemma ticks_on_break:
  "currentEntry w = Some e \<Longrightarrow> status e = Break \<Longrightarrow>
   currentEntry (ticks parse nows w) = Some e \<and> elapsedTime (ticks parse nows w) = elapsedTime w"
proof (induction nows arbitrary: w)
  case Nil
  then show ?case by (simp add: ticks_def)
next
  case (Cons now nows)
  from tick_on_break [OF Cons.prems, of parse now]
  have c: "currentEntry (tick parse now w) = Some e"
    and t: "elapsedTime (tick parse now w) = elapsedTime w" by simp_all
  from Cons.IH [OF c Cons.prems(2)] t show ?case by (simp add: ticks_def)
qed

lemma mapRows_length: "mapRows f xs = Inr ys \<Longrightarrow> length ys = length xs"
  by (induction xs arbitrary: ys) (auto split: sum.splits)

lemma mapRows_throws: "mapRows f xs = Inl x \<Longrightarrow> \<exists>a \<in> set xs. f a = Inl x"
  by (induction xs) (auto split: sum.splits)

subsection \<open>The invariant of the component over time\<close>

lemma singleton_inflight: "length xs \<le> 1 \<Longrightarrow> x \<in> set xs \<Longrightarrow> xs = [x]"
  by (cases xs) auto

lemma settled_mounted: "settled mounted"
  by (simp add: settled_def mounted_def initial_def)

lemma settled_fire:
  assumes "settled s" and "fire parse ev s = Some s'"
  shows "settled s'"
proof (cases ev)
  case (Call a)
  show ?thesis
  proof (cases "captured s")
    case True
    with Call assms start_busy [of a "ui s"] show ?thesis by (auto simp: settled_def)
  next
    case False
    with assms(1) have r: "revealed s" and nf: "\<not> fetchingCurrent s"
      by (auto simp: settled_def)
    from start_idle [of a "ui s"] obtain w' where "start a False (ui s) = (w', True)"
      by blast
    with Call False assms(2) r nf show ?thesis by (auto simp: settled_def)
  qed
next
  case Render
  with assms show ?thesis by (auto simp: settled_def)
next
  case (User u)
  with assms(2) have m: "(ClockIn, AwaitUser) \<in> set (inflight s)"
    by (auto split: if_splits)
  with assms(1) have r: "revealed s" and nf: "\<not> fetchingCurrent s"
    by (auto simp: settled_def)
  obtain w' goes where h: "handleClockIn_user u (ui s) = (w', goes)"
    by (cases "handleClockIn_user u (ui s)")
  with User assms(2) m r nf show ?thesis
    by (auto simp: settled_def split: if_splits)
next
  case (Reply a r)
  with assms(2) have m: "(a, AwaitReply) \<in> set (inflight s)"
    by (auto split: if_splits)
  with assms(1) have rv: "revealed s" and nf: "\<not> fetchingCurrent s"
    by (auto simp: settled_def)
  with Reply assms(2) m show ?thesis
    by (auto simp: settled_def)
next
  case (CurrentFetched u r)
  with assms fetchCurrentEntry_frame [of u r "ui s"] show ?thesis
    by (auto simp: settled_def split: if_splits)
next
  case (HistoryFetched u r)
  with assms fetchRecentActivities_frame [of u r "ui s"] show ?thesis
    by (auto simp: settled_def split: if_splits)
next
  case (Refreshed u r)
  with assms fetchRecentActivities_frame [of u r "ui s"] show ?thesis
    by (auto simp: settled_def split: if_splits)
next
  case Reveal
  with assms show ?thesis
    by (auto simp: settled_def split: if_splits)
next
  case (Tick now)
  with assms updateTimer_frame [of parse now "ui s"] show ?thesis
    by (auto simp: settled_def split: if_splits)
qed

lemma settled_run: "settled s \<Longrightarrow> run parse evs s = Some s' \<Longrightarrow> settled s'"
proof (induction evs arbitrary: s)
  case Nil
  then show ?case by simp
next
  case (Cons ev evs)
  from Cons.prems(2) obtain t where f: "fire parse ev s = Some t"
    and r: "run parse evs t = Some s'"
    by (auto split: option.splits)
  from settled_fire [OF Cons.prems(1) f] r show ?case by (rule Cons.IH)
qed

text \<open>
  The guard serialises the handlers as long as each call goes through the handlers of a
  render that has read the busy flag as it is: one step from a state with at most one
  handler in flight leads to such a state again.
\<close>

lemma serial_fire:
  assumes "settled s" and "serial s" and "fire parse ev s = Some s'"
    and sync: "\<And>a. ev = Call a \<Longrightarrow> captured s = isLoading (ui s)"
  shows "serial s'"
proof (cases ev)
  case (Call a)
  show ?thesis
  proof (cases "captured s")
    case True
    with Call assms(2,3) start_busy [of a "ui s"] show ?thesis by (auto simp: serial_def)
  next
    case False
    with sync [OF Call] have idle: "\<not> isLoading (ui s)" by simp
    with assms(2) have e: "inflight s = []" by (auto simp: serial_def)
    from start_idle [of a "ui s"] obtain w' where "start a False (ui s) = (w', True)"
      and "isLoading w'" by blast
    with Call False assms(3) e show ?thesis by (auto simp: serial_def)
  qed
next
  case Render
  with assms(2,3) show ?thesis by (auto simp: serial_def)
next
  case (User u)
  with assms(3) have m: "(ClockIn, AwaitUser) \<in> set (inflight s)"
    by (auto split: if_splits)
  with assms(2) have one: "inflight s = [(ClockIn, AwaitUser)]" and busy: "isLoading (ui s)"
    by (auto simp: serial_def intro: singleton_inflight)
  obtain w' goes where h: "handleClockIn_user u (ui s) = (w', goes)"
    by (cases "handleClockIn_user u (ui s)")
  from user_stage [OF h] busy User assms(3) m one h show ?thesis
    by (auto simp: serial_def split: if_splits)
next
  case (Reply a r)
  with assms(3) have m: "(a, AwaitReply) \<in> set (inflight s)"
    by (auto split: if_splits)
  with assms(2) have one: "inflight s = [(a, AwaitReply)]"
    by (auto simp: serial_def intro: singleton_inflight)
  with Reply assms(3) m show ?thesis
    by (auto simp: serial_def)
next
  case (CurrentFetched u r)
  with assms(2,3) fetchCurrentEntry_frame [of u r "ui s"] show ?thesis
    by (auto simp: serial_def split: if_splits)
next
  case (HistoryFetched u r)
  with assms(2,3) fetchRecentActivities_frame [of u r "ui s"] show ?thesis
    by (auto simp: serial_def split: if_splits)
next
  case (Refreshed u r)
  with assms(2,3) fetchRecentActivities_frame [of u r "ui s"] show ?thesis
    by (auto simp: serial_def split: if_splits)
next
  case Reveal
  with assms(1,3) have "inflight s = []" by (auto simp: settled_def split: if_splits)
  with Reveal assms(3) show ?thesis by (auto simp: serial_def split: if_splits)
next
  case (Tick now)
  with assms(2,3) updateTimer_frame [of parse now "ui s"] show ?thesis
    by (auto simp: serial_def split: if_splits)
qed

subsection \<open>The timer\<close>

text \<open>
  C1. For a current session with status \<open>active\<close>, an interval is registered, and each
  firing at time \<open>now\<close> stores \<open>now - clock_in\<close> as the elapsed time, which is what the
  timer text then formats. For a current session with status \<open>break\<close> whose
  \<open>break_start\<close> is present (defined and not the empty string, which is what the test
  \<open>currentEntry.break_start\<close> of the callback asks), each firing stores
  \<open>now - break_start\<close> as the break time, and the timer text formats that.
\<close>

theorem timer_displays_elapsed:
  assumes "currentEntry w = Some e"
  shows "(status e = Active \<longrightarrow>
           timerArmed w
           \<and> elapsedTime (tick parse now w) = js_sub (Fin now) (parse (clock_in e))
           \<and> timerText (tick parse now w)
               = Some (formatTime (js_sub (Fin now) (parse (clock_in e)))))
       \<and> (status e = Break \<and> break_start e = Some b \<and> b \<noteq> [] \<longrightarrow>
           timerArmed w
           \<and> breakTime (tick parse now w) = js_sub (Fin now) (parse b)
           \<and> timerText (tick parse now w) = Some (formatTime (js_sub (Fin now) (parse b))))"
  using assms by (simp add: tick_def timerArmed_def updateTimer_def timerText_def)

theorem timer_displays_elapsed_witness:
  "currentEntry (demoWidget (Some (demoEntry Active ''2024-01-01T09:00:00.000Z'' None)) [])
     = Some (demoEntry Active ''2024-01-01T09:00:00.000Z'' None)
   \<and> status (demoEntry Active ''2024-01-01T09:00:00.000Z'' None) = Active
   \<and> elapsedTime (tick demoParse 1704099607000
        (demoWidget (Some (demoEntry Active ''2024-01-01T09:00:00.000Z'' None)) []))
      = Fin 7000
   \<and> timerText (tick demoParse 1704099607000
        (demoWidget (Some (demoEntry Active ''2024-01-01T09:00:00.000Z'' None)) []))
      = Some ''00:00:07''
   \<and> status (demoEntry Break ''2024-01-01T09:00:00.000Z''
         (Some ''2024-01-01T09:00:05.000Z'')) = Break
   \<and> breakTime (tick demoParse 1704099607000
        (demoWidget (Some (demoEntry Break ''2024-01-01T09:00:00.000Z''
                             (Some ''2024-01-01T09:00:05.000Z''))) []))
      = Fin 2000
   \<and> timerText (tick demoParse 1704099607000
        (demoWidget (Some (demoEntry Break ''2024-01-01T09:00:00.000Z''
                             (Some ''2024-01-01T09:00:05.000Z''))) []))
      = Some ''00:00:02''"
  using
    timer_displays_elapsed [where
      w = "demoWidget (Some (demoEntry Active ''2024-01-01T09:00:00.000Z'' None)) []"
      and e = "demoEntry Active ''2024-01-01T09:00:00.000Z'' None"
      and parse = demoParse and now = 1704099607000]
    timer_displays_elapsed [where
      w = "demoWidget (Some (demoEntry Break ''2024-01-01T09:00:00.000Z''
                               (Some ''2024-01-01T09:00:05.000Z''))) []"
      and e = "demoEntry Break ''2024-01-01T09:00:00.000Z'' (Some ''2024-01-01T09:00:05.000Z'')"
      and b = "''2024-01-01T09:00:05.000Z''"
      and parse = demoParse and now = 1704099607000]
  by (simp add: demoWidget_def demoEntry_def demoParse_def formatTime_def padStart2_def
      show_nat.simps digits_def)

text \<open>
  C9. When the answer to start-break reports success and carries a session with status
  \<open>break\<close>, the handler sets the break time to zero, so the timer text reads \<open>00:00:00\<close>,
  and leaves the elapsed work time as it was; however often the interval fires during
  the break, the elapsed work time keeps that value. (The firings count the break time
  from \<open>break_start\<close>.)
\<close>

theorem break_freezes_work_timer:
  assumes "success result" and "data result = Some e" and "status e = Break"
  shows "breakTime (handleStartBreak_reply (Answer st (Some result)) w) = Fin 0
       \<and> timerText (handleStartBreak_reply (Answer st (Some result)) w) = Some ''00:00:00''
       \<and> elapsedTime (handleStartBreak_reply (Answer st (Some result)) w) = elapsedTime w
       \<and> elapsedTime (ticks parse nows (handleStartBreak_reply (Answer st (Some result)) w))
           = elapsedTime w"
proof -
  let ?w = "handleStartBreak_reply (Answer st (Some result)) w"
  from assms have c: "currentEntry ?w = Some e" and b: "breakTime ?w = Fin 0"
    and t: "elapsedTime ?w = elapsedTime w"
    by (simp_all add: handleStartBreak_reply_def handleStartBreak_try_def say_def announce_def)
  from c b assms(3) have x: "timerText ?w = Some ''00:00:00''"
    by (simp add: timerText_def formatTime_zero)
  from ticks_on_break [OF c assms(3), of parse nows] t b x show ?thesis by simp
qed

theorem break_freezes_work_timer_witness:
  "success (demoBody True (Some (demoEntry Break ''2024-01-01T09:00:00.000Z''
                                   (Some ''2024-01-01T09:00:05.000Z''))))
   \<and> status (demoEntry Break ''2024-01-01T09:00:00.000Z'' (Some ''2024-01-01T09:00:05.000Z''))
       = Break
   \<and> elapsedTime (tick demoParse 1704099605000
        (demoWidget (Some (demoEntry Active ''2024-01-01T09:00:00.000Z'' None)) [])) = Fin 5000
   \<and> breakTime (handleStartBreak_reply
        (Answer 200 (Some (demoBody True
           (Some (demoEntry Break ''2024-01-01T09:00:00.000Z''
                    (Some ''2024-01-01T09:00:05.000Z''))))))
        (tick demoParse 1704099605000
           (demoWidget (Some (demoEntry Active ''2024-01-01T09:00:00.000Z'' None)) []))) = Fin 0
   \<and> elapsedTime (ticks demoParse [1704099606000, 1704099607000] (handleStartBreak_reply
        (Answer 200 (Some (demoBody True
           (Some (demoEntry Break ''2024-01-01T09:00:00.000Z''
                    (Some ''2024-01-01T09:00:05.000Z''))))))
        (tick demoParse 1704099605000
           (demoWidget (Some (demoEntry Active ''2024-01-01T09:00:00.000Z'' None)) []))))
       = Fin 5000"
  using break_freezes_work_timer [where
      result = "demoBody True
        (Some (demoEntry Break ''2024-01-01T09:00:00.000Z'' (Some ''2024-01-01T09:00:05.000Z'')))"
      and e = "demoEntry Break ''2024-01-01T09:00:00.000Z'' (Some ''2024-01-01T09:00:05.000Z'')"
      and st = 200
      and w = "tick demoParse 1704099605000
           (demoWidget (Some (demoEntry Active ''2024-01-01T09:00:00.000Z'' None)) [])"
      and parse = demoParse and nows = "[1704099606000, 1704099607000]"]
  by (simp add: demoBody_def demoEntry_def demoWidget_def demoParse_def tick_def timerArmed_def
      updateTimer_def)

text \<open>
  C6, as the specification states it, fails: a current session whose reference timestamp
  does not parse gets no placeholder. With \<open>clock_in = garbage\<close> and status \<open>active\<close> the
  timer text after a firing is \<open>NaN:NaN:NaN\<close>, which is not of the form \<open>HH:MM:SS\<close>, and
  the status line repeats the unparsable string, so that two such sessions are shown
  differently. (A number that is not negative, such as 7000, is shown in that form.)
\<close>

theorem unparsable_timestamp_is_not_replaced:
  "demoParse ''garbage'' = NaN
   \<and> timerText (tick demoParse 1704099607000
        (demoWidget (Some (demoEntry Active ''garbage'' None)) []))
       = Some ''NaN:NaN:NaN''
   \<and> \<not> spec_HHMMSS ''NaN:NaN:NaN''
   \<and> spec_HHMMSS (formatTime (Fin 7000))
   \<and> demoISO ''garbage'' = None \<and> demoISO ''rubbish'' = None
   \<and> statusLine demoISO demoFmt (demoWidget (Some (demoEntry Active ''garbage'' None)) [])
       = ''Since garbage''
   \<and> statusLine demoISO demoFmt (demoWidget (Some (demoEntry Active ''rubbish'' None)) [])
       = ''Since rubbish''"
  using formatTime_wellformed [of 7000]
  by (simp add: demoParse_def demoISO_def demoWidget_def demoEntry_def tick_def timerArmed_def
      updateTimer_def timerText_def formatTime_NaN spec_HHMMSS_def digits_def statusLine_def
      formatActivityTime_def format_def)

text \<open>
  C6 as amended: for a current session whose reference timestamp does not parse
  (\<open>clock_in\<close> for status \<open>active\<close>, a non-empty \<open>break_start\<close> for status \<open>break\<close>), the
  timer text after a firing of the interval is the literal \<open>NaN:NaN:NaN\<close>; when date-fns
  cannot parse \<open>clock_in\<close>, the status line is \<open>Since\<close> followed by the string as the server
  sent it; and rendering does not throw as long as the dates of the history rows parse.
\<close>

theorem unparsable_timestamp_display:
  assumes "currentEntry w = Some e"
  shows "(status e = Active \<and> parse (clock_in e) = NaN \<longrightarrow>
            timerText (tick parse now w) = Some ''NaN:NaN:NaN'')
       \<and> (status e = Break \<and> break_start e = Some b \<and> b \<noteq> [] \<and> parse b = NaN \<longrightarrow>
            timerText (tick parse now w) = Some ''NaN:NaN:NaN'')
       \<and> (parseISO (clock_in e) = None \<longrightarrow>
            statusLine parseISO fmt (tick parse now w) = ''Since '' @ clock_in e)
       \<and> ((\<forall>a \<in> set (shownActivities w). parseISO (act_date a) \<noteq> None) \<longrightarrow>
            (\<exists>v. render parseISO fmt (tick parse now w) = Inr v))"
proof -
  have c: "currentEntry (tick parse now w) = Some e"
    using assms by (simp add: tick_def updateTimer_def split: option.splits)
  have s: "shownActivities (tick parse now w) = shownActivities w"
    by (simp add: tick_def updateTimer_def shownActivities_def split: option.splits)
  have 1: "status e = Active \<and> parse (clock_in e) = NaN \<longrightarrow>
            timerText (tick parse now w) = Some ''NaN:NaN:NaN''"
    using assms by (simp add: tick_def timerArmed_def updateTimer_def timerText_def formatTime_NaN)
  have 2: "status e = Break \<and> break_start e = Some b \<and> b \<noteq> [] \<and> parse b = NaN \<longrightarrow>
            timerText (tick parse now w) = Some ''NaN:NaN:NaN''"
    using assms by (simp add: tick_def timerArmed_def updateTimer_def timerText_def formatTime_NaN)
  have 3: "parseISO (clock_in e) = None \<longrightarrow>
            statusLine parseISO fmt (tick parse now w) = ''Since '' @ clock_in e"
    using c by (simp add: statusLine_def formatActivityTime_def format_def)
  have 4: "(\<forall>a \<in> set (shownActivities w). parseISO (act_date a) \<noteq> None) \<longrightarrow>
            (\<exists>v. render parseISO fmt (tick parse now w) = Inr v)"
  proof
    assume good: "\<forall>a \<in> set (shownActivities w). parseISO (act_date a) \<noteq> None"
    show "\<exists>v. render parseISO fmt (tick parse now w) = Inr v"
    proof (cases "render parseISO fmt (tick parse now w)")
      case (Inl x)
      then have "mapRows (historyRow parseISO fmt) (shownActivities w) = Inl x"
        using s by (auto simp: render_def split: if_splits sum.splits)
      from mapRows_throws [OF this] obtain a where a: "a \<in> set (shownActivities w)"
        and h: "historyRow parseISO fmt a = Inl x" by blast
      from h have "parseISO (act_date a) = None"
        by (auto simp: historyRow_def format_def split: option.splits sum.splits)
      with a good show ?thesis by blast
    next
      case (Inr v)
      then show ?thesis by blast
    qed
  qed
  from 1 2 3 4 show ?thesis by blast
qed

theorem unparsable_timestamp_display_witness:
  "currentEntry (demoWidget (Some (demoEntry Active ''garbage'' None)) [demoActivity ''a''])
     = Some (demoEntry Active ''garbage'' None)
   \<and> status (demoEntry Active ''garbage'' None) = Active
   \<and> demoParse (clock_in (demoEntry Active ''garbage'' None)) = NaN
   \<and> demoISO (clock_in (demoEntry Active ''garbage'' None)) = None
   \<and> demoISO (act_date (demoActivity ''a'')) \<noteq> None
   \<and> render demoISO demoFmt (tick demoParse 1704099607000
        (demoWidget (Some (demoEntry Active ''garbage'' None)) [demoActivity ''a'']))
      = Inr (Content ''Since garbage'' [ClockOut] (Some ''NaN:NaN:NaN'') [demoRow])
   \<and> status (demoEntry Break ''2024-01-01T09:00:00.000Z'' (Some ''soon'')) = Break
   \<and> demoParse ''soon'' = NaN
   \<and> timerText (tick demoParse 1704099607000
        (demoWidget (Some (demoEntry Break ''2024-01-01T09:00:00.000Z'' (Some ''soon''))) []))
      = Some ''NaN:NaN:NaN''"
  using
    unparsable_timestamp_display [where
      w = "demoWidget (Some (demoEntry Active ''garbage'' None)) [demoActivity ''a'']"
      and e = "demoEntry Active ''garbage'' None" and parse = demoParse
      and parseISO = demoISO and fmt = demoFmt and now = 1704099607000]
    unparsable_timestamp_display [where
      w = "demoWidget (Some (demoEntry Break ''2024-01-01T09:00:00.000Z'' (Some ''soon''))) []"
      and e = "demoEntry Break ''2024-01-01T09:00:00.000Z'' (Some ''soon'')"
      and b = "''soon''" and parse = demoParse
      and parseISO = demoISO and fmt = demoFmt and now = 1704099607000]
  by (simp add: demoWidget_def demoEntry_def demoActivity_def demoParse_def demoISO_def
      demoFmt_def demoRow_def initial_def tick_def timerArmed_def updateTimer_def render_def
      statusLine_def actionButtons_def timerText_def shownActivities_def historyRow_def
      format_def formatActivityTime_def formatActivityDuration_def formatTime_def
      padStart2_def show_nat.simps digits_def)

subsection \<open>Fetching\<close>

text \<open>
  C4. Whenever the current-entry fetch of a mounted widget ends with no user, with a 404
  or 401 response, or with a throw, the widget has no current session afterwards and
  has shown no toast; what it renders once loading is over is the line
  \<open>Ready to clock in\<close> with the clock-in button.
\<close>

theorem quiet_fetch_leaves_ready_state:
  assumes "run parse evs mounted = Some s"
    and "fire parse (CurrentFetched u r) s = Some s'"
    and "nothingOpen u r"
  shows "currentEntry (ui s') = None \<and> toasts (ui s') = []
       \<and> statusLine parseISO fmt (ui s') = ''Ready to clock in''
       \<and> actionButtons (ui s') = [ClockIn]"
proof -
  from settled_run [OF settled_mounted assms(1)] have st: "settled s" .
  from assms(2) have f: "fetchingCurrent s" and s': "ui s' = fetchCurrentEntry u r (ui s)"
    by (auto split: if_splits)
  from st f have none: "currentEntry (ui s) = None" and quiet: "toasts (ui s) = []"
    by (auto simp: settled_def)
  from assms(3) none have c: "currentEntry (fetchCurrentEntry u r (ui s)) = None"
    by (auto simp: nothingOpen_def fetchCurrentEntry_def fetchCurrentEntry_try_def ok_def
        split: user.splits reply.splits option.splits)
  from fetchCurrentEntry_frame [of u r "ui s"] quiet
  have t: "toasts (fetchCurrentEntry u r (ui s)) = []" by simp
  from c t s' show ?thesis by (simp add: statusLine_def actionButtons_def)
qed

theorem quiet_fetch_leaves_ready_state_witness:
  "run demoParse [Call ClockIn, HistoryFetched SomeUser (Answer 200 (Some (demoBody True (Some []))))]
      mounted = Some (mounted\<lparr>fetchingHistory := False\<rparr>)
   \<and> fire demoParse (CurrentFetched SomeUser (Answer 401 None)) (mounted\<lparr>fetchingHistory := False\<rparr>)
       = Some (mounted\<lparr>fetchingHistory := False, fetchingCurrent := False\<rparr>)
   \<and> nothingOpen SomeUser (Answer 401 None)
   \<and> currentEntry (ui (mounted\<lparr>fetchingHistory := False, fetchingCurrent := False\<rparr>)) = None
   \<and> toasts (ui (mounted\<lparr>fetchingHistory := False, fetchingCurrent := False\<rparr>)) = []
   \<and> statusLine demoISO demoFmt (ui (mounted\<lparr>fetchingHistory := False, fetchingCurrent := False\<rparr>))
       = ''Ready to clock in''"
  using quiet_fetch_leaves_ready_state [where parse = demoParse
      and evs = "[Call ClockIn, HistoryFetched SomeUser (Answer 200 (Some (demoBody True (Some []))))]"
      and s = "mounted\<lparr>fetchingHistory := False\<rparr>"
      and u = SomeUser and r = "Answer 401 None"
      and s' = "mounted\<lparr>fetchingHistory := False, fetchingCurrent := False\<rparr>"
      and parseISO = demoISO and fmt = demoFmt]
  by (simp add: mounted_def initial_def demoBody_def handleClockIn_start_def ok_def
      fetchRecentActivities_def fetchRecentActivities_try_def fetchCurrentEntry_def
      fetchCurrentEntry_try_def nothingOpen_def)

text \<open>
  C10. On an HTTP-ok answer to the current-entry request, the \<open>data\<close> field of the body
  becomes the local current session whatever the \<open>success\<close> flag says: in particular a
  body with \<open>success = false\<close> that carries a data value has that value stored.
\<close>

theorem current_fetch_ignores_success_flag:
  assumes "ok st"
  shows "currentEntry (fetchCurrentEntry SomeUser (Answer st (Some result)) w) = data result
       \<and> (\<not> success result \<and> data result = Some d \<longrightarrow>
            currentEntry (fetchCurrentEntry SomeUser (Answer st (Some result)) w) = Some d)"
  using assms by (simp add: fetchCurrentEntry_def fetchCurrentEntry_try_def)

theorem current_fetch_ignores_success_flag_witness:
  "ok 200 \<and> \<not> success (demoBody False (Some (demoEntry Active ''x'' None)))
   \<and> data (demoBody False (Some (demoEntry Active ''x'' None)))
       = Some (demoEntry Active ''x'' None)
   \<and> currentEntry (fetchCurrentEntry SomeUser
        (Answer 200 (Some (demoBody False (Some (demoEntry Active ''x'' None))))) initial)
      = Some (demoEntry Active ''x'' None)"
  using current_fetch_ignores_success_flag [where st = 200
      and result = "demoBody False (Some (demoEntry Active ''x'' None))"
      and d = "demoEntry Active ''x'' None" and w = initial]
  by (simp add: ok_def demoBody_def)

text \<open>
  C8. When the history request is answered ok and successfully with a list of entries,
  of whatever length, the widget keeps exactly the first three of them in the order
  received; no answer makes a list of at most three longer than three; and the rows
  rendered are those of the first three kept entries, never more than three.
\<close>

theorem history_keeps_first_three:
  "(ok st \<and> success result \<and> data result = Some entries \<longrightarrow>
      recentActivities (fetchRecentActivities SomeUser (Answer st (Some result)) w)
        = take 3 entries)
   \<and> (length (recentActivities w) \<le> 3 \<longrightarrow>
        length (recentActivities (fetchRecentActivities u r w)) \<le> 3)
   \<and> shownActivities w = take 3 (recentActivities w)
   \<and> length (shownActivities w) \<le> 3
   \<and> (render parseISO fmt w = Inr v \<longrightarrow> length (history v) \<le> 3)"
proof -
  have a: "ok st \<and> success result \<and> data result = Some entries \<longrightarrow>
      recentActivities (fetchRecentActivities SomeUser (Answer st (Some result)) w)
        = take 3 entries"
    by (simp add: fetchRecentActivities_def fetchRecentActivities_try_def)
  have b: "length (recentActivities w) \<le> 3 \<longrightarrow>
      length (recentActivities (fetchRecentActivities u r w)) \<le> 3"
    by (simp add: fetchRecentActivities_def fetchRecentActivities_try_def
        split: user.splits reply.splits option.splits)
  have c: "length (shownActivities w) \<le> 3"
    by (simp add: shownActivities_def)
  have d: "render parseISO fmt w = Inr v \<longrightarrow> length (history v) \<le> 3"
  proof
    assume r: "render parseISO fmt w = Inr v"
    show "length (history v) \<le> 3"
    proof (cases "isLoading w")
      case True
      with r show ?thesis by (auto simp: render_def)
    next
      case False
      with r obtain rows
        where m: "mapRows (historyRow parseISO fmt) (shownActivities w) = Inr rows"
          and v: "history v = rows"
        by (auto simp: render_def split: sum.splits)
      from mapRows_length [OF m] c v show ?thesis by simp
    qed
  qed
  from a b c d show ?thesis by (simp add: shownActivities_def)
qed

theorem history_keeps_first_three_witness:
  "ok 200
   \<and> success (demoBody True (Some [demoActivity ''a'', demoActivity ''b'', demoActivity ''c'',
                                   demoActivity ''d'', demoActivity ''e'']))
   \<and> recentActivities (fetchRecentActivities SomeUser
        (Answer 200 (Some (demoBody True
           (Some [demoActivity ''a'', demoActivity ''b'', demoActivity ''c'',
                  demoActivity ''d'', demoActivity ''e'']))))
        (demoWidget None []))
      = [demoActivity ''a'', demoActivity ''b'', demoActivity ''c'']
   \<and> length (recentActivities (demoWidget None [])) \<le> 3
   \<and> render demoISO demoFmt
        (demoWidget None [demoActivity ''a'', demoActivity ''b'', demoActivity ''c'',
                          demoActivity ''d''])
      = Inr (Content ''Ready to clock in'' [ClockIn] None [demoRow, demoRow, demoRow])
   \<and> length (history (Content ''Ready to clock in'' [ClockIn] None [demoRow, demoRow, demoRow]))
      = 3"
  using
    history_keeps_first_three [where st = 200
      and result = "demoBody True (Some [demoActivity ''a'', demoActivity ''b'',
                      demoActivity ''c'', demoActivity ''d'', demoActivity ''e''])"
      and entries = "[demoActivity ''a'', demoActivity ''b'', demoActivity ''c'',
                      demoActivity ''d'', demoActivity ''e'']"
      and w = "demoWidget None []" and u = NoUser and r = Thrown]
    history_keeps_first_three [where parseISO = demoISO and fmt = demoFmt
      and w = "demoWidget None [demoActivity ''a'', demoActivity ''b'', demoActivity ''c'',
                                demoActivity ''d'']"
      and v = "Content ''Ready to clock in'' [ClockIn] None [demoRow, demoRow, demoRow]"]
  by (simp add: ok_def demoBody_def demoWidget_def initial_def demoActivity_def demoParse_def
      demoISO_def demoFmt_def demoRow_def render_def statusLine_def actionButtons_def
      timerText_def shownActivities_def historyRow_def format_def formatActivityTime_def
      formatActivityDuration_def formatTime_def padStart2_def show_nat.simps digits_def)

subsection \<open>The handlers\<close>


text \<open>
  C5. When the answer to a clock-in request reports success, the current session becomes
  the session the server returned and one \<open>timeTrackingChanged\<close> event is dispatched.
  When the answer reports failure, or the request throws (\<open>fetch\<close>, \<open>response.json\<close> or
  \<open>getCurrentUser\<close>), an error toast is shown, the current session stays what it was and
  no event is dispatched. A clock-in call that finds the busy flag clear, with a user,
  is the reply step applied to the state with the flag set and the request logged.
\<close>

theorem clock_in_replaces_or_reports:
  "(success result \<longrightarrow>
      currentEntry (handleClockIn_reply (Answer st (Some result)) w) = data result
      \<and> broadcasts (handleClockIn_reply (Answer st (Some result)) w) = Suc (broadcasts w))
   \<and> (r = Thrown \<or> r = Answer st None \<or> (r = Answer st (Some result) \<and> \<not> success result) \<longrightarrow>
      (\<exists>m. toasts (handleClockIn_reply r w) = toasts w @ [ToastError m])
      \<and> currentEntry (handleClockIn_reply r w) = currentEntry w
      \<and> broadcasts (handleClockIn_reply r w) = broadcasts w)
   \<and> (\<exists>m. toasts (fst (handleClockIn_user UserThrown w)) = toasts w @ [ToastError m])
   \<and> currentEntry (fst (handleClockIn_user UserThrown w)) = currentEntry w
   \<and> broadcasts (fst (handleClockIn_user UserThrown w)) = broadcasts w
   \<and> (\<not> isLoading w \<longrightarrow>
      handleClockIn SomeUser r w
        = handleClockIn_reply r (w\<lparr>isLoading := True, posted := posted w @ [ClockIn]\<rparr>))"
  by (auto simp: handleClockIn_def handleClockIn_start_def handleClockIn_user_def
      handleClockIn_reply_def handleClockIn_try_def say_def announce_def)

theorem clock_in_replaces_or_reports_witness:
  "success (demoBody True (Some (demoEntry Active ''2024-01-01T09:00:00.000Z'' None)))
   \<and> currentEntry (handleClockIn_reply
        (Answer 200 (Some (demoBody True
           (Some (demoEntry Active ''2024-01-01T09:00:00.000Z'' None)))))
        (demoWidget None []))
      = Some (demoEntry Active ''2024-01-01T09:00:00.000Z'' None)
   \<and> broadcasts (handleClockIn_reply
        (Answer 200 (Some (demoBody True
           (Some (demoEntry Active ''2024-01-01T09:00:00.000Z'' None)))))
        (demoWidget None [])) = 1
   \<and> \<not> success (demoBody False (None :: entry option))
   \<and> toasts (handleClockIn_reply (Answer 400 (Some (demoBody False None))) (demoWidget None []))
      = [ToastError ''Failed to clock in'']
   \<and> currentEntry (handleClockIn_reply (Answer 400 (Some (demoBody False None)))
        (demoWidget None [])) = None
   \<and> broadcasts (handleClockIn_reply (Answer 400 (Some (demoBody False None)))
        (demoWidget None [])) = 0
   \<and> \<not> isLoading (demoWidget None [])
   \<and> toasts (handleClockIn SomeUser Thrown (demoWidget None []))
      = [ToastError ''Failed to clock in'']"
  using
    clock_in_replaces_or_reports [where
      result = "demoBody True (Some (demoEntry Active ''2024-01-01T09:00:00.000Z'' None))"
      and st = 200 and w = "demoWidget None []" and r = Thrown]
    clock_in_replaces_or_reports [where
      result = "demoBody False None" and st = 400 and w = "demoWidget None []"
      and r = "Answer 400 (Some (demoBody False None))"]
  by (simp add: demoBody_def demoWidget_def initial_def handleClockIn_reply_def
      handleClockIn_try_def say_def announce_def or_else_def)

text \<open>
  C3. The interface promises a body \<open>{success, data: Session, error?}\<close>: an answer that
  reports success carries the session as \<open>data\<close>. When the answer to a clock-out request
  reports success, the current session becomes none and the elapsed time and the break
  time are zero (\<open>00:00:00\<close>); when the answer reports failure, the current session stays
  what it was. A clock-out call that finds the busy flag clear is the reply step applied
  to the state with the flag set and the request logged.
\<close>

theorem clock_out_clears_or_keeps:
  "(success result \<and> data result = Some d \<longrightarrow>
      currentEntry (handleClockOut_reply (Answer st (Some result)) w) = None
      \<and> elapsedTime (handleClockOut_reply (Answer st (Some result)) w) = Fin 0
      \<and> breakTime (handleClockOut_reply (Answer st (Some result)) w) = Fin 0
      \<and> formatTime (elapsedTime (handleClockOut_reply (Answer st (Some result)) w))
          = ''00:00:00''
      \<and> formatTime (breakTime (handleClockOut_reply (Answer st (Some result)) w))
          = ''00:00:00'')
   \<and> (\<not> success result \<longrightarrow>
      currentEntry (handleClockOut_reply (Answer st (Some result)) w) = currentEntry w)
   \<and> (\<not> isLoading w \<longrightarrow>
      handleClockOut r w
        = handleClockOut_reply r (w\<lparr>isLoading := True, posted := posted w @ [ClockOut]\<rparr>))"
  by (simp add: handleClockOut_def handleClockOut_start_def handleClockOut_reply_def
      handleClockOut_try_def say_def announce_def formatTime_zero)

theorem clock_out_clears_or_keeps_witness:
  "success (demoBody True (Some (demoEntry Completed ''2024-01-01T09:00:00.000Z'' None)))
   \<and> \<not> isLoading (tick demoParse 1704099607000
         (demoWidget (Some (demoEntry Active ''2024-01-01T09:00:00.000Z'' None)) []))
   \<and> elapsedTime (tick demoParse 1704099607000
         (demoWidget (Some (demoEntry Active ''2024-01-01T09:00:00.000Z'' None)) []))
       = Fin 7000
   \<and> currentEntry (handleClockOut
        (Answer 200 (Some (demoBody True
           (Some (demoEntry Completed ''2024-01-01T09:00:00.000Z'' None)))))
        (tick demoParse 1704099607000
           (demoWidget (Some (demoEntry Active ''2024-01-01T09:00:00.000Z'' None)) [])))
      = None
   \<and> elapsedTime (handleClockOut
        (Answer 200 (Some (demoBody True
           (Some (demoEntry Completed ''2024-01-01T09:00:00.000Z'' None)))))
        (tick demoParse 1704099607000
           (demoWidget (Some (demoEntry Active ''2024-01-01T09:00:00.000Z'' None)) [])))
      = Fin 0
   \<and> \<not> success (demoBody False (None :: entry option))
   \<and> currentEntry (handleClockOut (Answer 400 (Some (demoBody False None)))
        (tick demoParse 1704099607000
           (demoWidget (Some (demoEntry Active ''2024-01-01T09:00:00.000Z'' None)) [])))
      = Some (demoEntry Active ''2024-01-01T09:00:00.000Z'' None)"
  using
    clock_out_clears_or_keeps [where
      result = "demoBody True (Some (demoEntry Completed ''2024-01-01T09:00:00.000Z'' None))"
      and d = "demoEntry Completed ''2024-01-01T09:00:00.000Z'' None" and st = 200
      and r = "Answer 200 (Some (demoBody True
           (Some (demoEntry Completed ''2024-01-01T09:00:00.000Z'' None))))"
      and w = "tick demoParse 1704099607000
           (demoWidget (Some (demoEntry Active ''2024-01-01T09:00:00.000Z'' None)) [])"]
    clock_out_clears_or_keeps [where
      result = "demoBody False None" and st = 400
      and r = "Answer 400 (Some (demoBody False None))"
      and w = "tick demoParse 1704099607000
           (demoWidget (Some (demoEntry Active ''2024-01-01T09:00:00.000Z'' None)) [])"]
  by (simp add: demoBody_def demoWidget_def demoEntry_def demoParse_def initial_def tick_def
      timerArmed_def updateTimer_def handleClockOut_reply_def handleClockOut_try_def say_def
      announce_def)

text \<open>
  Outside what the interface promises: a body that reports success and has no \<open>data\<close>
  makes the success branch throw while it builds its toast (it reads
  \<open>result.data.total_hours\<close>), so the \<open>catch\<close> reports a failure and the session stays.
  The success branches of the other three handlers read no field of \<open>data\<close> and run to
  their end on such a body.
\<close>

lemma clock_out_success_without_data:
  "success (demoBody True (None :: entry option))
   \<and> \<not> isLoading (demoWidget (Some (demoEntry Active ''2024-01-01T09:00:00.000Z'' None)) [])
   \<and> currentEntry (handleClockOut (Answer 200 (Some (demoBody True None)))
        (demoWidget (Some (demoEntry Active ''2024-01-01T09:00:00.000Z'' None)) []))
      = Some (demoEntry Active ''2024-01-01T09:00:00.000Z'' None)
   \<and> toasts (handleClockOut (Answer 200 (Some (demoBody True None)))
        (demoWidget (Some (demoEntry Active ''2024-01-01T09:00:00.000Z'' None)) []))
      = [ToastError ''Failed to clock out'']
   \<and> toasts (handleStartBreak (Answer 200 (Some (demoBody True None)))
        (demoWidget (Some (demoEntry Active ''2024-01-01T09:00:00.000Z'' None)) []))
      = [ToastSuccess ''Break started'']"
  by (simp add: demoBody_def demoWidget_def initial_def handleClockOut_def
      handleClockOut_start_def handleClockOut_reply_def handleClockOut_try_def say_def
      handleStartBreak_def handleStartBreak_start_def handleStartBreak_reply_def
      handleStartBreak_try_def announce_def)

subsection \<open>The buttons\<close>

text \<open>
  C7. With a current session, whatever its status (so in particular \<open>active\<close> or
  \<open>break\<close>), no clock-in button is among the buttons; and whenever what is rendered
  offers clock-in, the local current session is none.
\<close>

theorem clock_in_only_without_session:
  "(currentEntry w = Some e \<longrightarrow> ClockIn \<notin> set (actionButtons w))
   \<and> (render parseISO fmt w = Inr v \<and> ClockIn \<in> set (available v) \<longrightarrow> currentEntry w = None)"
  by (auto simp: actionButtons_def render_def split: if_splits sum.splits option.splits)

theorem clock_in_only_without_session_witness:
  "currentEntry (demoWidget (Some (demoEntry Active ''2024-01-01T09:00:00.000Z'' None)) [])
      = Some (demoEntry Active ''2024-01-01T09:00:00.000Z'' None)
   \<and> actionButtons (demoWidget (Some (demoEntry Active ''2024-01-01T09:00:00.000Z'' None)) [])
      = [ClockOut]
   \<and> currentEntry (demoWidget (Some (demoEntry Break ''2024-01-01T09:00:00.000Z'' None)) [])
      = Some (demoEntry Break ''2024-01-01T09:00:00.000Z'' None)
   \<and> actionButtons (demoWidget (Some (demoEntry Break ''2024-01-01T09:00:00.000Z'' None)) [])
      = []
   \<and> render demoISO demoFmt (demoWidget None [])
       = Inr (Content ''Ready to clock in'' [ClockIn] None [])
   \<and> ClockIn \<in> set (available (Content ''Ready to clock in'' [ClockIn] None []))
   \<and> currentEntry (demoWidget None []) = None"
  using
    clock_in_only_without_session [where
      w = "demoWidget (Some (demoEntry Active ''2024-01-01T09:00:00.000Z'' None)) []"
      and e = "demoEntry Active ''2024-01-01T09:00:00.000Z'' None"]
    clock_in_only_without_session [where
      w = "demoWidget (Some (demoEntry Break ''2024-01-01T09:00:00.000Z'' None)) []"
      and e = "demoEntry Break ''2024-01-01T09:00:00.000Z'' None"]
    clock_in_only_without_session [where w = "demoWidget None []"
      and parseISO = demoISO and fmt = demoFmt
      and v = "Content ''Ready to clock in'' [ClockIn] None []"]
  by (simp add: actionButtons_def render_def demoWidget_def initial_def demoEntry_def
      statusLine_def timerText_def shownActivities_def)

end
